theory Spec2Isabelle
  imports Main "HOL-Library.Word"
begin

section \<open>Basic types\<close>

text \<open>
  Go's \<^verbatim>\<open>uint32\<close> is a 32-bit word. Go's \<^verbatim>\<open>int\<close> is taken at its 64-bit width: every value
  the modelled code stores in an \<^verbatim>\<open>int\<close> is a slice length, a slice index or a converted
  \<^verbatim>\<open>uint32\<close> (plus one), so it is modelled by \<open>int\<close> without wrap-around. A \<^verbatim>\<open>float32\<close> is
  carried as its 32-bit pattern; no modelled function computes with it.
\<close>

type_synonym uint32 = "32 word"
type_synonym float32 = "32 word"

text \<open>\<^verbatim>\<open>Point3D\<close> is \<^verbatim>\<open>[3]float32\<close>.\<close>

type_synonym Point3D = "float32 \<times> float32 \<times> float32"

section \<open>The resource graph\<close>

text \<open>\<^verbatim>\<open>color.RGBA\<close> of the Go standard library.\<close>

record RGBA =
  R :: "8 word"
  G :: "8 word"
  B :: "8 word"
  A :: "8 word"

record Base =
  Name :: string
  Color :: RGBA

record BaseMaterials =
  ID :: uint32
  Materials :: "Base list"

text \<open>
  The asset kinds of the materials extension, with the fields that \<^verbatim>\<open>validateMultiProps\<close>,
  \<^verbatim>\<open>validateCompositeMat\<close> and the tests read and build. A blend method and a texture
  content type are small enumerations, kept as bytes.
\<close>

record ColorGroup =
  ID :: uint32
  Colors :: "RGBA list"

record Texture2D =
  ID :: uint32
  Path :: string
  ContentType :: "8 word"

record Texture2DGroup =
  ID :: uint32
  TextureID :: uint32
  Coords :: "(float32 \<times> float32) list"

record Composite =
  Values :: "float32 list"

record CompositeMaterials =
  ID :: uint32
  MaterialID :: uint32
  Indices :: "uint32 list"
  Composites :: "Composite list"

record Multi =
  PIndices :: "uint32 list"

record MultiProperties =
  ID :: uint32
  PIDs :: "uint32 list"
  BlendMethods :: "8 word list"
  Multis :: "Multi list"

text \<open>
  \<^verbatim>\<open>Asset\<close> is an interface with the one method \<^verbatim>\<open>Identify\<close>; the constructors are the
  dynamic types the modelled code switches on, and \<open>AUnknownAsset\<close> (the \<^verbatim>\<open>UnknownAsset\<close>
  wrapper, which only carries an id) stands for every other kind.
\<close>

datatype Asset =
    ABaseMaterials BaseMaterials
  | AColorGroup ColorGroup
  | ATexture2D Texture2D
  | ATexture2DGroup Texture2DGroup
  | ACompositeMaterials CompositeMaterials
  | AMultiProperties MultiProperties
  | AUnknownAsset uint32

fun Identify :: "Asset \<Rightarrow> uint32" where
  "Identify (ABaseMaterials r) = BaseMaterials.ID r"
| "Identify (AColorGroup r) = ColorGroup.ID r"
| "Identify (ATexture2D r) = Texture2D.ID r"
| "Identify (ATexture2DGroup r) = Texture2DGroup.ID r"
| "Identify (ACompositeMaterials r) = CompositeMaterials.ID r"
| "Identify (AMultiProperties r) = MultiProperties.ID r"
| "Identify (AUnknownAsset i) = i"

record Triangle =
  Indices :: "uint32 \<times> uint32 \<times> uint32"
  PID :: uint32
  PIndices :: "uint32 \<times> uint32 \<times> uint32"

record Mesh =
  Vertices :: "Point3D list"
  Triangles :: "Triangle list"

record Component =
  ObjectID :: uint32

text \<open>
  An \<^verbatim>\<open>Object\<close>, with the fields the modelled functions read or write (metadata and the
  extension attributes are left out). \<^verbatim>\<open>Mesh\<close> is a pointer that may be nil.
\<close>

record Object =
  ID :: uint32
  Name :: string
  DefaultPID :: uint32
  DefaultPIndex :: uint32
  Mesh :: "Mesh option"
  Components :: "Component list"

record Item =
  ObjectID :: uint32

record Build =
  Items :: "Item list"

text \<open>The slices hold no nil entries: \<^verbatim>\<open>UnusedID\<close> and \<^verbatim>\<open>FindAsset\<close> call methods on each.\<close>

record Resources =
  Assets :: "Asset list"
  Objects :: "Object list"

record ChildModel =
  Resources :: Resources

record Attachment =
  Path :: string
  ContentType :: string

record Model =
  Path :: string
  Resources :: Resources
  Build :: Build
  Attachments :: "Attachment list"
  Childs :: "string \<rightharpoonup> ChildModel"

definition DefaultModelPath :: string where
  "DefaultModelPath = ''/3D/3dmodel.model''"

subsection \<open>\<^verbatim>\<open>Resources.UnusedID\<close>\<close>

text \<open>
  The loop \<^verbatim>\<open>for i, id := range ids { if id != i { lowest = i } }\<close>: it has no \<^verbatim>\<open>break\<close>, so
  every later index whose value differs overwrites \<^verbatim>\<open>lowest\<close>.
\<close>

fun lowest_loop :: "nat \<Rightarrow> int list \<Rightarrow> int \<Rightarrow> int" where
  "lowest_loop i [] lowest = lowest"
| "lowest_loop i (v # ids) lowest =
     lowest_loop (Suc i) ids (if v \<noteq> int i then int i else lowest)"

text \<open>The slice \<^verbatim>\<open>ids\<close> before sorting: 0, then the assets' ids, then the objects' ids.\<close>

definition used_ids :: "Resources \<Rightarrow> int list" where
  "used_ids rs =
     0 # map (\<lambda>r. uint (Identify r)) (Assets rs) @ map (\<lambda>ob. uint (Object.ID ob)) (Objects rs)"

text \<open>\<^verbatim>\<open>sort.Ints\<close> is \<open>sort\<close>: the ascending rearrangement of a list of integers is unique.\<close>

definition UnusedID :: "Resources \<Rightarrow> uint32" where
  "UnusedID rs =
     (if length (Assets rs) = 0 \<and> length (Objects rs) = 0 then 1
      else
        let ids = sort (used_ids rs);
            lowest = lowest_loop 0 ids 0;
            lowest' = (if lowest = 0 then last ids + 1 else lowest)
        in word_of_int lowest')"

text \<open>
  What the specification describes, for comparison: the first index of the sorted
  sequence whose value differs from it, or one past the maximum when there is none.
\<close>

fun first_gap :: "nat \<Rightarrow> int list \<Rightarrow> int option" where
  "first_gap i [] = None"
| "first_gap i (v # ids) = (if v \<noteq> int i then Some (int i) else first_gap (Suc i) ids)"

definition UnusedID_spec :: "Resources \<Rightarrow> uint32" where
  "UnusedID_spec rs =
     (let ids = sort (used_ids rs)
      in case first_gap 0 ids of
           Some i \<Rightarrow> word_of_int i
         | None \<Rightarrow> word_of_int (last ids + 1))"

text \<open>The ids in use in a collection.\<close>

definition ids_in_use :: "Resources \<Rightarrow> uint32 list" where
  "ids_in_use rs = map Identify (Assets rs) @ map Object.ID (Objects rs)"

text \<open>A collection whose assets are unknown-kind assets with the given ids.\<close>

definition assets_with_ids :: "uint32 list \<Rightarrow> Resources" where
  "assets_with_ids xs = \<lparr>Assets = map AUnknownAsset xs, Objects = []\<rparr>"

subsection \<open>Path-scoped lookup\<close>

fun FindAsset_rs :: "Asset list \<Rightarrow> uint32 \<Rightarrow> Asset option" where
  "FindAsset_rs [] i = None"
| "FindAsset_rs (a # as) i = (if Identify a = i then Some a else FindAsset_rs as i)"

definition FindResources :: "Model \<Rightarrow> string \<Rightarrow> Resources option" where
  "FindResources m path =
     (if path = [] \<or> path = Model.Path m \<or> (Model.Path m = [] \<and> path = DefaultModelPath)
      then Some (Model.Resources m)
      else case Childs m path of
             Some child \<Rightarrow> Some (ChildModel.Resources child)
           | None \<Rightarrow> None)"

definition FindAsset :: "Model \<Rightarrow> string \<Rightarrow> uint32 \<Rightarrow> Asset option" where
  "FindAsset m path i =
     (case FindResources m path of
        Some rs \<Rightarrow> FindAsset_rs (Assets rs) i
      | None \<Rightarrow> None)"

subsection \<open>The STL importer's use of \<^verbatim>\<open>UnusedID\<close>\<close>

text \<open>
  \<^verbatim>\<open>Decoder.DecodeContext\<close> after the mesh has been read: \<open>err\<close> is the reader's error
  (\<open>None\<close> for nil) and \<open>mesh\<close> the mesh it filled. On success the new object takes
  \<^verbatim>\<open>UnusedID()\<close> and is appended with a build item that refers to it.
\<close>

definition DecodeContext_finish :: "'e option \<Rightarrow> Mesh \<Rightarrow> Model \<Rightarrow> 'e option \<times> Model" where
  "DecodeContext_finish err mesh m =
     (case err of
        Some e \<Rightarrow> (Some e, m)
      | None \<Rightarrow>
          let newMesh = \<lparr>Object.ID = UnusedID (Model.Resources m), Name = [], DefaultPID = 0,
                          DefaultPIndex = 0, Mesh = Some mesh, Components = []\<rparr>;
              rs = Model.Resources m
          in (None, m\<lparr>Model.Resources := rs\<lparr>Objects := Objects rs @ [newMesh]\<rparr>,
                       Build := \<lparr>Items = Items (Build m) @ [\<lparr>Item.ObjectID = Object.ID newMesh\<rparr>]\<rparr>\<rparr>))"

section \<open>The spec registry\<close>

text \<open>
  The process-wide table \<^verbatim>\<open>specs\<close>, passed explicitly. A \<^verbatim>\<open>spec.Spec\<close> is an interface value:
  \<open>None\<close> is nil. \<^verbatim>\<open>Register\<close> can end in a panic or a new table, so its result is a sum;
  the body is the one assignment \<^verbatim>\<open>specs[namespace] = spec\<close> between lock and unlock.
\<close>

datatype panic = Panic string

definition Register :: "string \<Rightarrow> 's option \<Rightarrow> (string \<rightharpoonup> 's option) \<Rightarrow> panic + (string \<rightharpoonup> 's option)" where
  "Register namespace spec specs = Inr (specs(namespace \<mapsto> spec))"

definition loadExtension :: "(string \<rightharpoonup> 's option) \<Rightarrow> string \<Rightarrow> 's option \<times> bool" where
  "loadExtension specs ns = (case specs ns of Some ext \<Rightarrow> (ext, True) | None \<Rightarrow> (None, False))"

section \<open>Extension attachment bags\<close>

text \<open>
  \<^verbatim>\<open>AnyAttr\<close> is \<^verbatim>\<open>[]MarshalerAttr\<close> and \<^verbatim>\<open>Extension\<close> is \<^verbatim>\<open>[]Marshaler\<close>. A Go slice is nil or
  a sequence, and \<^verbatim>\<open>len\<close> of the nil slice is 0. The entries are interface values: \<open>None\<close>
  is a nil entry.
\<close>

datatype 'a slice = NilSlice | Slice "'a list"

fun elems :: "'a slice \<Rightarrow> 'a list" where
  "elems NilSlice = []"
| "elems (Slice xs) = xs"

definition len :: "'a slice \<Rightarrow> nat" where
  "len e = length (elems e)"

text \<open>
  What \<^verbatim>\<open>Get\<close> asks of package \<^verbatim>\<open>reflect\<close>, as parameters over type descriptors \<open>'t\<close>:
  the dynamic type of a value, whether a type's kind is \<^verbatim>\<open>Interface\<close>, whether it
  implements \<^verbatim>\<open>MarshalerAttr\<close> or \<^verbatim>\<open>Marshaler\<close>, and \<^verbatim>\<open>AssignableTo\<close>.
\<close>

record ('t, 'v) reflect =
  typeOf :: "'v \<Rightarrow> 't"
  isInterface :: "'t \<Rightarrow> bool"
  implementsMarshalerAttr :: "'t \<Rightarrow> bool"
  implementsMarshaler :: "'t \<Rightarrow> bool"
  assignableTo :: "'t \<Rightarrow> 't \<Rightarrow> bool"

text \<open>
  The \<^verbatim>\<open>target interface{}\<close> argument, by what \<^verbatim>\<open>Get\<close> distinguishes: the nil interface, a
  value whose kind is not \<^verbatim>\<open>Ptr\<close>, a nil pointer, and a non-nil pointer; \<open>'t\<close> is the type of
  the value (for a pointer, the type pointed to, \<^verbatim>\<open>typ.Elem()\<close>).
\<close>

datatype 't target = TargetNil | TargetNonPointer 't | TargetNilPointer 't | TargetPointer 't

text \<open>The loop of \<^verbatim>\<open>Get\<close>: the first non-nil entry whose type is assignable to the target type.\<close>

fun Get_loop :: "('t, 'v) reflect \<Rightarrow> 't \<Rightarrow> 'v option list \<Rightarrow> 'v option" where
  "Get_loop rf targetType [] = None"
| "Get_loop rf targetType (None # vs) = Get_loop rf targetType vs"
| "Get_loop rf targetType (Some v # vs) =
     (if assignableTo rf (typeOf rf v) targetType then Some v else Get_loop rf targetType vs)"

text \<open>
  The result of \<^verbatim>\<open>Get\<close> is a panic or the returned boolean together with the value stored
  through \<^verbatim>\<open>target\<close> (\<open>None\<close> when nothing is stored).
\<close>

definition AnyAttr_Get ::
  "('t, 'v) reflect \<Rightarrow> 'v option slice \<Rightarrow> 't target \<Rightarrow> panic + (bool \<times> 'v option)" where
  "AnyAttr_Get rf e target =
     (if e = NilSlice \<or> len e = 0 then Inr (False, None)
      else (case target of
          TargetNil \<Rightarrow> Inl (Panic ''go3mf: target cannot be nil'')
        | TargetNonPointer t \<Rightarrow> Inl (Panic ''go3mf: target must be a non-nil pointer'')
        | TargetNilPointer t \<Rightarrow> Inl (Panic ''go3mf: target must be a non-nil pointer'')
        | TargetPointer el \<Rightarrow>
            (if \<not> isInterface rf el \<and> \<not> implementsMarshalerAttr rf el
             then Inl (Panic ''go3mf: *target must be interface or implement MarshalerAttr'')
             else (case Get_loop rf el (elems e) of
                     Some v \<Rightarrow> Inr (True, Some v)
                   | None \<Rightarrow> Inr (False, None)))))"

definition Extension_Get ::
  "('t, 'v) reflect \<Rightarrow> 'v option slice \<Rightarrow> 't target \<Rightarrow> panic + (bool \<times> 'v option)" where
  "Extension_Get rf e target =
     (if e = NilSlice \<or> len e = 0 then Inr (False, None)
      else (case target of
          TargetNil \<Rightarrow> Inl (Panic ''go3mf: target cannot be nil'')
        | TargetNonPointer t \<Rightarrow> Inl (Panic ''go3mf: target must be a non-nil pointer'')
        | TargetNilPointer t \<Rightarrow> Inl (Panic ''go3mf: target must be a non-nil pointer'')
        | TargetPointer el \<Rightarrow>
            (if \<not> isInterface rf el \<and> \<not> implementsMarshaler rf el
             then Inl (Panic ''go3mf: *target must be interface or implement Marshaler'')
             else (case Get_loop rf el (elems e) of
                     Some v \<Rightarrow> Inr (True, Some v)
                   | None \<Rightarrow> Inr (False, None)))))"

subsection \<open>Encoding a bag\<close>

text \<open>
  \<^verbatim>\<open>Marshal3MF(x)\<close> writes to the encoder \<open>x\<close> and returns an error (\<open>None\<close> for nil); the
  method is the parameter \<open>marshal\<close>. Calling it on a nil entry is a nil dereference.
  \<^verbatim>\<open>Extension.encode\<close> returns inside the loop when \<^verbatim>\<open>err == nil\<close>.
\<close>

fun Extension_encode ::
  "('v \<Rightarrow> 'x \<Rightarrow> 'e option \<times> 'x) \<Rightarrow> 'v option list \<Rightarrow> 'x \<Rightarrow> panic + ('e option \<times> 'x)" where
  "Extension_encode marshal [] x = Inr (None, x)"
| "Extension_encode marshal (None # exts) x = Inl (Panic ''nil pointer dereference'')"
| "Extension_encode marshal (Some ext # exts) x =
     (case marshal ext x of
        (None, x') \<Rightarrow> Inr (None, x')
      | (Some err, x') \<Rightarrow> Extension_encode marshal exts x')"

text \<open>
  The sibling \<^verbatim>\<open>AnyAttr.encode\<close>: \<^verbatim>\<open>Marshal3MFAttr(x)\<close> returns attributes and an error; the
  attributes of every entry that succeeds are appended to \<^verbatim>\<open>start.Attr\<close>.
\<close>

fun AnyAttr_encode ::
  "('v \<Rightarrow> 'x \<Rightarrow> ('a list \<times> 'e option) \<times> 'x) \<Rightarrow> 'v option list \<Rightarrow> 'x \<Rightarrow> 'a list \<Rightarrow>
     panic + ('x \<times> 'a list)" where
  "AnyAttr_encode marshalAttr [] x attrs = Inr (x, attrs)"
| "AnyAttr_encode marshalAttr (None # exts) x attrs = Inl (Panic ''nil pointer dereference'')"
| "AnyAttr_encode marshalAttr (Some ext # exts) x attrs =
     (case marshalAttr ext x of
        ((att, None), x') \<Rightarrow> AnyAttr_encode marshalAttr exts x' (attrs @ att)
      | ((att, Some err), x') \<Rightarrow> AnyAttr_encode marshalAttr exts x' attrs)"

section \<open>Validation of the materials extension\<close>

text \<open>
  Modelled from the spec: package \<^verbatim>\<open>errors\<close> of the repository (\<^verbatim>\<open>Append\<close>, \<^verbatim>\<open>WrapIndex\<close>,
  \<^verbatim>\<open>NewMissingFieldError\<close> and the \<^verbatim>\<open>Err...\<close> values) is not among the source files. The
  diagnostics accumulate into one ordered list (the tests read \<^verbatim>\<open>err.(*errors.List).Errors\<close>),
  so \<^verbatim>\<open>Append\<close> adds at the end of the list and nil is the empty list; \<^verbatim>\<open>WrapIndex\<close> records
  the wrapped error, the element and its index.
\<close>

datatype verror =
    ErrMissingID
  | MissingFieldError string
  | ErrEmptyResourceProps
  | ErrMissingResource
  | ErrIndexOutOfBounds
  | ErrMultiBlend
  | ErrMaterialMulti
  | ErrMultiRefMulti
  | ErrMultiColors
  | ErrCompositeBase
  | WrapIndex verror Multi nat

definition Append :: "verror list \<Rightarrow> verror \<Rightarrow> verror list" where
  "Append errs err = errs @ [err]"

text \<open>The attribute names of the materials extension, as the decoding tests spell them.\<close>

definition attrPIDs :: string where "attrPIDs = ''pids''"
definition attrMatID :: string where "attrMatID = ''matid''"
definition attrMatIndices :: string where "attrMatIndices = ''matindices''"

subsection \<open>\<^verbatim>\<open>validateMultiProps\<close>\<close>

text \<open>The variables of the loop over \<^verbatim>\<open>r.PIDs\<close>.\<close>

record pids_state =
  errs :: "verror list"
  colorCount :: int
  resourceUndefined :: bool
  lengths :: "int list"

text \<open>One iteration \<^verbatim>\<open>j, pid\<close> of the loop over \<^verbatim>\<open>r.PIDs\<close>.\<close>

definition pids_step :: "Model \<Rightarrow> string \<Rightarrow> nat \<Rightarrow> uint32 \<Rightarrow> pids_state \<Rightarrow> pids_state" where
  "pids_step m path j pid st =
     (case FindAsset m path pid of
        Some pr \<Rightarrow>
          (case pr of
             ABaseMaterials bm \<Rightarrow>
               (let st1 = (if j \<noteq> 0 then st\<lparr>errs := Append (errs st) ErrMaterialMulti\<rparr> else st)
                in st1\<lparr>lengths := (lengths st1)[j := int (length (Materials bm))]\<rparr>)
           | ACompositeMaterials cm \<Rightarrow>
               (let st1 = (if j \<noteq> 0 then st\<lparr>errs := Append (errs st) ErrMaterialMulti\<rparr> else st)
                in st1\<lparr>lengths := (lengths st1)[j := int (length (Composites cm))]\<rparr>)
           | AMultiProperties mp \<Rightarrow> st\<lparr>errs := Append (errs st) ErrMultiRefMulti\<rparr>
           | AColorGroup cg \<Rightarrow>
               (let st1 = (if colorCount st = 1 then st\<lparr>errs := Append (errs st) ErrMultiColors\<rparr>
                           else st)
                in st1\<lparr>colorCount := colorCount st1 + 1,
                       lengths := (lengths st1)[j := int (length (Colors cg))]\<rparr>)
           | ATexture2D t \<Rightarrow> st
           | ATexture2DGroup t \<Rightarrow> st
           | AUnknownAsset i \<Rightarrow> st)
      | None \<Rightarrow>
          (if \<not> resourceUndefined st
           then st\<lparr>errs := Append (errs st) ErrMissingResource, resourceUndefined := True\<rparr>
           else st))"

fun pids_loop :: "Model \<Rightarrow> string \<Rightarrow> nat \<Rightarrow> uint32 list \<Rightarrow> pids_state \<Rightarrow> pids_state" where
  "pids_loop m path j [] st = st"
| "pids_loop m path j (pid # pids) st = pids_loop m path (Suc j) pids (pids_step m path j pid st)"

text \<open>
  The inner loop \<^verbatim>\<open>for k, index := range m.PIndices\<close>: whether it reaches the \<^verbatim>\<open>break\<close>, that
  is, whether some slot \<open>k\<close> has \<^verbatim>\<open>k < len(r.PIDs) && lengths[k] < int(index)\<close>. The read
  \<^verbatim>\<open>lengths[k]\<close> is guarded by \<open>k < npids\<close>, the length of \<^verbatim>\<open>lengths\<close>.
\<close>

fun pindices_loop :: "nat \<Rightarrow> int list \<Rightarrow> nat \<Rightarrow> uint32 list \<Rightarrow> bool" where
  "pindices_loop npids ls k [] = False"
| "pindices_loop npids ls k (index # rest) =
     (if k < npids \<and> ls ! k < uint index then True
      else pindices_loop npids ls (Suc k) rest)"

fun multis_loop :: "nat \<Rightarrow> int list \<Rightarrow> nat \<Rightarrow> Multi list \<Rightarrow> verror list \<Rightarrow> verror list" where
  "multis_loop npids ls j [] es = es"
| "multis_loop npids ls j (mu # ms) es =
     multis_loop npids ls (Suc j) ms
       (if pindices_loop npids ls 0 (Multi.PIndices mu)
        then Append es (WrapIndex ErrIndexOutOfBounds mu j) else es)"

definition validateMultiProps :: "Model \<Rightarrow> string \<Rightarrow> MultiProperties \<Rightarrow> verror list" where
  "validateMultiProps m path r =
     (let es0 = [];
          es1 = (if MultiProperties.ID r = 0 then Append es0 ErrMissingID else es0);
          es2 = (if length (PIDs r) = 0 then Append es1 (MissingFieldError attrPIDs) else es1);
          es3 = (if int (length (BlendMethods r)) > int (length (PIDs r)) - 1
                 then Append es2 ErrMultiBlend else es2);
          es4 = (if length (Multis r) = 0 then Append es3 ErrEmptyResourceProps else es3);
          st = pids_loop m path 0 (PIDs r)
                 \<lparr>errs = es4, colorCount = 0, resourceUndefined = False,
                  lengths = replicate (length (PIDs r)) 0\<rparr>
      in multis_loop (length (PIDs r)) (lengths st) 0 (Multis r) (errs st))"

subsection \<open>\<^verbatim>\<open>validateCompositeMat\<close>\<close>

text \<open>The loop over \<^verbatim>\<open>r.Indices\<close>: whether it reaches the \<^verbatim>\<open>break\<close>.\<close>

fun indices_loop :: "nat \<Rightarrow> uint32 list \<Rightarrow> bool" where
  "indices_loop n [] = False"
| "indices_loop n (index # rest) = (if uint index > int n then True else indices_loop n rest)"

definition validateCompositeMat :: "Model \<Rightarrow> string \<Rightarrow> CompositeMaterials \<Rightarrow> verror list" where
  "validateCompositeMat m path r =
     (let es0 = [];
          es1 = (if CompositeMaterials.ID r = 0 then Append es0 ErrMissingID else es0);
          es2 = (if MaterialID r = 0 then Append es1 (MissingFieldError attrMatID)
                 else case FindAsset m path (MaterialID r) of
                     Some mat \<Rightarrow>
                       (case mat of
                          ABaseMaterials bm \<Rightarrow>
                            (if indices_loop (length (Materials bm)) (CompositeMaterials.Indices r)
                             then Append es1 ErrIndexOutOfBounds else es1)
                        | _ \<Rightarrow> Append es1 ErrCompositeBase)
                   | None \<Rightarrow> Append es1 ErrMissingResource);
          es3 = (if length (CompositeMaterials.Indices r) = 0
                 then Append es2 (MissingFieldError attrMatIndices) else es2);
          es4 = (if length (Composites r) = 0 then Append es3 ErrEmptyResourceProps else es3)
      in es4)"

subsection \<open>What the diagnostics are stated against\<close>

text \<open>
  The entry of the code's table \<^verbatim>\<open>lengths\<close> for a property-ID: the length of the list of the
  base-materials, composite-materials or color-group asset it resolves to, and 0 when it
  resolves to nothing or to another kind of asset (a texture group among them). It
  describes the code, not the length of the list referred to.
\<close>

definition refLen :: "Model \<Rightarrow> string \<Rightarrow> uint32 \<Rightarrow> int" where
  "refLen m path pid =
     (case FindAsset m path pid of
        Some (ABaseMaterials bm) \<Rightarrow> int (length (Materials bm))
      | Some (ACompositeMaterials cm) \<Rightarrow> int (length (Composites cm))
      | Some (AColorGroup cg) \<Rightarrow> int (length (Colors cg))
      | _ \<Rightarrow> 0)"

text \<open>The code's condition on a combination entry: a slot whose index exceeds its table entry.\<close>

definition slot_exceeds :: "Model \<Rightarrow> string \<Rightarrow> uint32 list \<Rightarrow> Multi \<Rightarrow> bool" where
  "slot_exceeds m path pids mu =
     (\<exists>k<length (Multi.PIndices mu). k < length pids \<and>
        refLen m path (pids ! k) < uint (Multi.PIndices mu ! k))"

text \<open>The kind of asset an id resolves to.\<close>

definition refsMulti :: "Model \<Rightarrow> string \<Rightarrow> uint32 \<Rightarrow> bool" where
  "refsMulti m path pid =
     (case FindAsset m path pid of Some (AMultiProperties mp) \<Rightarrow> True | _ \<Rightarrow> False)"

definition refsMaterial :: "Model \<Rightarrow> string \<Rightarrow> uint32 \<Rightarrow> bool" where
  "refsMaterial m path pid =
     (case FindAsset m path pid of
        Some (ABaseMaterials bm) \<Rightarrow> True
      | Some (ACompositeMaterials cm) \<Rightarrow> True
      | _ \<Rightarrow> False)"

definition refsColorGroup :: "Model \<Rightarrow> string \<Rightarrow> uint32 \<Rightarrow> bool" where
  "refsColorGroup m path pid =
     (case FindAsset m path pid of Some (AColorGroup cg) \<Rightarrow> True | _ \<Rightarrow> False)"

definition refsNonBase :: "Model \<Rightarrow> string \<Rightarrow> uint32 \<Rightarrow> bool" where
  "refsNonBase m path i =
     (case FindAsset m path i of
        Some (ABaseMaterials bm) \<Rightarrow> False
      | Some other \<Rightarrow> True
      | None \<Rightarrow> False)"

text \<open>A composite-materials asset has an index above the material count of its base materials.\<close>

definition index_exceeds :: "Model \<Rightarrow> string \<Rightarrow> CompositeMaterials \<Rightarrow> bool" where
  "index_exceeds m path r =
     (case FindAsset m path (MaterialID r) of
        Some (ABaseMaterials bm) \<Rightarrow>
          (\<exists>index\<in>set (CompositeMaterials.Indices r). int (length (Materials bm)) < uint index)
      | _ \<Rightarrow> False)"

text \<open>
  The assets of the validation tests that the property-IDs below refer to: base materials
  1 with two materials and color group 6 with two colors.
\<close>

definition test_model :: Model where
  "test_model =
     \<lparr>Model.Path = [],
      Resources = \<lparr>Assets =
        [ABaseMaterials \<lparr>BaseMaterials.ID = 1, Materials =
           [\<lparr>Base.Name = ''a'', Color = \<lparr>R = 1, G = 0, B = 0, A = 0\<rparr>\<rparr>,
            \<lparr>Base.Name = ''b'', Color = \<lparr>R = 0, G = 1, B = 0, A = 0\<rparr>\<rparr>]\<rparr>,
         AColorGroup \<lparr>ColorGroup.ID = 6, Colors =
           [\<lparr>R = 1, G = 0, B = 0, A = 0\<rparr>, \<lparr>R = 2, G = 3, B = 4, A = 5\<rparr>]\<rparr>],
        Objects = []\<rparr>,
      Build = \<lparr>Items = []\<rparr>, Attachments = [], Childs = Map.empty\<rparr>"

text \<open>
  The length of the list a property-ID refers to, as the specification speaks of it: the
  materials of a base-materials asset, the composites of a composite-materials asset, the
  colors of a color group and the coordinates of a texture group; \<open>None\<close> for an asset
  that is no property list.
\<close>

fun propertyListLen :: "Asset \<Rightarrow> nat option" where
  "propertyListLen (ABaseMaterials bm) = Some (length (Materials bm))"
| "propertyListLen (ACompositeMaterials cm) = Some (length (Composites cm))"
| "propertyListLen (AColorGroup cg) = Some (length (Colors cg))"
| "propertyListLen (ATexture2DGroup tg) = Some (length (Coords tg))"
| "propertyListLen (ATexture2D t) = None"
| "propertyListLen (AMultiProperties mp) = None"
| "propertyListLen (AUnknownAsset i) = None"

definition referencedListLen :: "Model \<Rightarrow> string \<Rightarrow> uint32 \<Rightarrow> nat option" where
  "referencedListLen m path pid =
     (case FindAsset m path pid of Some a \<Rightarrow> propertyListLen a | None \<Rightarrow> None)"

text \<open>
  The assets of the decoding and marshalling tests that their multi-properties asset 9
  (property-IDs \<open>{5, 2}\<close>) refers to: texture 6 and texture group 2 with four
  coordinates, together with base materials 5 with three materials.
\<close>

definition texture_model :: Model where
  "texture_model =
     \<lparr>Model.Path = ''/3D/3dmodel.model'',
      Resources = \<lparr>Assets =
        [ABaseMaterials \<lparr>BaseMaterials.ID = 5, Materials =
           [\<lparr>Base.Name = ''a'', Color = \<lparr>R = 1, G = 0, B = 0, A = 255\<rparr>\<rparr>,
            \<lparr>Base.Name = ''b'', Color = \<lparr>R = 0, G = 1, B = 0, A = 255\<rparr>\<rparr>,
            \<lparr>Base.Name = ''c'', Color = \<lparr>R = 0, G = 0, B = 1, A = 255\<rparr>\<rparr>]\<rparr>,
         ATexture2D \<lparr>Texture2D.ID = 6, Path = ''/3D/Texture/msLogo.png'', ContentType = 1\<rparr>,
         ATexture2DGroup \<lparr>Texture2DGroup.ID = 2, TextureID = 6, Coords =
           [(0x3E99999A, 0x3F000000), (0x3E99999A, 0x3F4CCCCD),
            (0x3F000000, 0x3F4CCCCD), (0x3F000000, 0x3F000000)]\<rparr>],
        Objects = []\<rparr>,
      Build = \<lparr>Items = []\<rparr>, Attachments = [], Childs = Map.empty\<rparr>"

text \<open>The multi-properties asset 9 of those tests.\<close>

definition texture_multi :: MultiProperties where
  "texture_multi =
     \<lparr>MultiProperties.ID = 9, PIDs = [5, 2], BlendMethods = [1],
      Multis = [\<lparr>Multi.PIndices = [0, 0]\<rparr>, \<lparr>Multi.PIndices = [1, 0]\<rparr>,
                \<lparr>Multi.PIndices = [2, 3]\<rparr>]\<rparr>"

section \<open>The streaming decoder\<close>

text \<open>\<^verbatim>\<open>xml.Name\<close>, \<^verbatim>\<open>xml.Attr\<close> and the tokens of \<^verbatim>\<open>encoding/xml\<close>.\<close>

record xmlName =
  Space :: string
  Local :: string

record xmlAttr =
  Name :: xmlName
  Value :: string

datatype Token =
    StartElement xmlName "xmlAttr list"
  | EndElement xmlName
  | CharData string
  | OtherToken

text \<open>
  The \<^verbatim>\<open>xml.Decoder\<close> is the list of tokens \<^verbatim>\<open>x.Token()\<close> still returns, followed by the error
  \<open>fin\<close> it returns after them (\<^verbatim>\<open>io.EOF\<close> at the end of a well-formed document). The loop
  ends with that error or with the error of a hook.
\<close>

datatype 'e derror = EOF | SyntaxError | HookError 'e

text \<open>
  \<^verbatim>\<open>x.Skip()\<close> of \<^verbatim>\<open>encoding/xml\<close>: it reads tokens until it has consumed the end element
  matching the start element already consumed, counting nested start elements, and
  returns the reader's error if the tokens run out first.
\<close>

fun Skip_loop :: "'e derror \<Rightarrow> nat \<Rightarrow> Token list \<Rightarrow> 'e derror option \<times> Token list" where
  "Skip_loop fin depth [] = (Some fin, [])"
| "Skip_loop fin depth (StartElement n as # ts) = Skip_loop fin (Suc depth) ts"
| "Skip_loop fin depth (EndElement n # ts) =
     (if depth = 0 then (None, ts) else Skip_loop fin (depth - 1) ts)"
| "Skip_loop fin depth (CharData c # ts) = Skip_loop fin depth ts"
| "Skip_loop fin depth (OtherToken # ts) = Skip_loop fin depth ts"

text \<open>
  The \<^verbatim>\<open>nodeDecoder\<close> interface. A decoder is a reference \<open>'d\<close>; everything the methods
  read and write (the \<^verbatim>\<open>modelFile\<close> with its warnings and resources, and the decoders' own
  fields) is the store \<open>'h\<close>, which each method takes and returns. An error is \<open>None\<close>
  for nil, and \<^verbatim>\<open>Child\<close> returns \<open>None\<close> for a nil decoder.
\<close>

record ('d, 'h, 'e) hooks =
  Open :: "'d \<Rightarrow> 'h \<Rightarrow> 'e option \<times> 'h"
  Attributes :: "'d \<Rightarrow> xmlAttr list \<Rightarrow> 'h \<Rightarrow> 'e option \<times> 'h"
  Text :: "'d \<Rightarrow> string \<Rightarrow> 'h \<Rightarrow> 'e option \<times> 'h"
  Child :: "'d \<Rightarrow> xmlName \<Rightarrow> 'h \<Rightarrow> 'd option \<times> 'h"
  Close :: "'d \<Rightarrow> 'h \<Rightarrow> 'e option \<times> 'h"
  SetModelFile :: "'d \<Rightarrow> 'h \<Rightarrow> 'h"

text \<open>The variables of \<^verbatim>\<open>modelFile.Decode\<close>; the stacks grow and shrink at the end.\<close>

record ('d, 'h) dstate =
  currentDecoder :: 'd
  state :: "'d list"
  names :: "xmlName list"
  currentName :: xmlName
  modelFile :: 'h

datatype ('r, 'c) iteration = Break 'r | Continue 'c

text \<open>
  One iteration of the loop, after \<^verbatim>\<open>x.Token()\<close> has returned the token \<open>t\<close> and left the
  tokens \<open>ts\<close>: it breaks with an error, panics on popping an empty stack, or continues
  with the tokens left and the new variables.
\<close>

definition Decode_step ::
  "('d, 'h, 'e) hooks \<Rightarrow> 'e derror \<Rightarrow> Token \<Rightarrow> Token list \<Rightarrow> ('d, 'h) dstate \<Rightarrow>
     (panic + 'e derror \<times> ('d, 'h) dstate, Token list \<times> ('d, 'h) dstate) iteration" where
  "Decode_step hk fin t ts st =
     (case t of
        StartElement name attrs \<Rightarrow>
          (case Child hk (currentDecoder st) name (modelFile st) of
             (Some tmpDecoder, h1) \<Rightarrow>
               (let h2 = SetModelFile hk tmpDecoder h1;
                    st1 = st\<lparr>state := state st @ [currentDecoder st],
                             names := names st @ [currentName st],
                             currentName := name,
                             currentDecoder := tmpDecoder\<rparr>
                in case Open hk tmpDecoder h2 of
                     (Some err, h3) \<Rightarrow> Break (Inr (HookError err, st1\<lparr>modelFile := h3\<rparr>))
                   | (None, h3) \<Rightarrow>
                       (case Attributes hk tmpDecoder attrs h3 of
                          (Some err, h4) \<Rightarrow> Break (Inr (HookError err, st1\<lparr>modelFile := h4\<rparr>))
                        | (None, h4) \<Rightarrow> Continue (ts, st1\<lparr>modelFile := h4\<rparr>)))
           | (None, h1) \<Rightarrow>
               (case Skip_loop fin 0 ts of
                  (Some err, ts') \<Rightarrow> Break (Inr (err, st\<lparr>modelFile := h1\<rparr>))
                | (None, ts') \<Rightarrow> Continue (ts', st\<lparr>modelFile := h1\<rparr>)))
      | CharData text \<Rightarrow>
          (case Text hk (currentDecoder st) text (modelFile st) of
             (Some err, h1) \<Rightarrow> Break (Inr (HookError err, st\<lparr>modelFile := h1\<rparr>))
           | (None, h1) \<Rightarrow> Continue (ts, st\<lparr>modelFile := h1\<rparr>))
      | EndElement name \<Rightarrow>
          (if currentName st = name then
             (case Close hk (currentDecoder st) (modelFile st) of
                (Some err, h1) \<Rightarrow> Break (Inr (HookError err, st\<lparr>modelFile := h1\<rparr>))
              | (None, h1) \<Rightarrow>
                  (if state st = [] \<or> names st = []
                   then Break (Inl (Panic ''index out of range''))
                   else Continue (ts, st\<lparr>currentDecoder := last (state st),
                                           state := butlast (state st),
                                           currentName := last (names st),
                                           names := butlast (names st),
                                           modelFile := h1\<rparr>)))
           else Continue (ts, st))
      | OtherToken \<Rightarrow> Continue (ts, st))"

text \<open>The tokens left after an iteration, for the termination of the loop.\<close>

lemma Skip_loop_length: "length (snd (Skip_loop fin depth ts)) \<le> length ts"
  by (induction fin depth ts rule: Skip_loop.induct) (auto intro: le_SucI)

lemma Decode_step_length:
  "Decode_step hk fin t ts st = Continue (ts', st') \<Longrightarrow> length ts' \<le> length ts"
  using Skip_loop_length[of fin 0 ts]
  by (auto simp: Decode_step_def Let_def split: Token.splits prod.splits option.splits if_splits)

function Decode_loop ::
  "('d, 'h, 'e) hooks \<Rightarrow> 'e derror \<Rightarrow> Token list \<Rightarrow> ('d, 'h) dstate \<Rightarrow>
     panic + 'e derror \<times> ('d, 'h) dstate" where
  "Decode_loop hk fin [] st = Inr (fin, st)"
| "Decode_loop hk fin (t # ts) st =
     (case Decode_step hk fin t ts st of
        Break r \<Rightarrow> r
      | Continue (ts', st') \<Rightarrow> Decode_loop hk fin ts' st')"
  by pat_completeness auto
termination
  by (relation "measure (\<lambda>(hk, fin, ts, st). length ts)")
     (auto dest: Decode_step_length)

text \<open>
  \<^verbatim>\<open>modelFile.Decode\<close>: \<open>topLevel\<close> is the new \<^verbatim>\<open>topLevelDecoder\<close> and \<open>h0\<close> the store after the two
  maps of the \<^verbatim>\<open>modelFile\<close> have been made.
\<close>

definition Decode ::
  "('d, 'h, 'e) hooks \<Rightarrow> 'd \<Rightarrow> 'h \<Rightarrow> 'e derror \<Rightarrow> Token list \<Rightarrow>
     panic + 'e derror \<times> ('d, 'h) dstate" where
  "Decode hk topLevel h0 fin ts =
     Decode_loop hk fin ts
       \<lparr>currentDecoder = topLevel, state = [], names = [],
        currentName = \<lparr>Space = [], Local = []\<rparr>, modelFile = h0\<rparr>"

text \<open>
  The final depth of a token sequence read from depth \<open>d\<close>; \<open>None\<close> when an end element
  closes more than was opened. A sequence of whole elements and text has
  \<open>nesting 0 ts = Some 0\<close>.
\<close>

fun nesting :: "nat \<Rightarrow> Token list \<Rightarrow> nat option" where
  "nesting d [] = Some d"
| "nesting d (StartElement n as # ts) = nesting (Suc d) ts"
| "nesting d (EndElement n # ts) = (if d = 0 then None else nesting (d - 1) ts)"
| "nesting d (CharData c # ts) = nesting d ts"
| "nesting d (OtherToken # ts) = nesting d ts"

subsection \<open>The decoders of the source\<close>

definition nsCoreSpec :: string where
  "nsCoreSpec = ''http://schemas.microsoft.com/3dmanufacturing/core/2015/02''"

definition attrModel :: string where
  "attrModel = ''model''"

text \<open>
  \<^verbatim>\<open>emptyDecoder\<close> (every method returns nil) and \<^verbatim>\<open>topLevelDecoder\<close>, whose \<^verbatim>\<open>Child\<close> returns a
  new \<^verbatim>\<open>modelDecoder\<close> for the core \<^verbatim>\<open>model\<close> element and nil for any other name. The
  \<^verbatim>\<open>modelDecoder\<close> embeds \<^verbatim>\<open>emptyDecoder\<close>; the methods it overrides are not among the source
  files, so the decoder returned here has the embedded ones.
\<close>

datatype coreDecoder = TopLevelDecoder bool | EmptyDecoder

definition topLevelDecoder_Child :: "xmlName \<Rightarrow> coreDecoder option" where
  "topLevelDecoder_Child name =
     (if name = \<lparr>Space = nsCoreSpec, Local = attrModel\<rparr> then Some EmptyDecoder else None)"

definition coreHooks :: "(coreDecoder, 'h, 'e) hooks" where
  "coreHooks =
     \<lparr>Open = (\<lambda>d h. (None, h)),
      Attributes = (\<lambda>d as h. (None, h)),
      Text = (\<lambda>d text h. (None, h)),
      Child = (\<lambda>d name h.
                 (case d of TopLevelDecoder r \<Rightarrow> topLevelDecoder_Child name | EmptyDecoder \<Rightarrow> None, h)),
      Close = (\<lambda>d h. (None, h)),
      SetModelFile = (\<lambda>d h. h)\<rparr>"

section \<open>The mesh builder\<close>

text \<open>
  Modelled from the spec: the type \<^verbatim>\<open>vectorTree\<close> with \<^verbatim>\<open>FindVector\<close> and \<^verbatim>\<open>AddVector\<close> is not
  among the source files. The specification describes a spatial index of the vertices
  added so far with exact-match point lookup; it is a map from points to vertex indices.
\<close>

type_synonym vectorTree = "Point3D \<rightharpoonup> uint32"

definition FindVector :: "vectorTree \<Rightarrow> Point3D \<Rightarrow> uint32 \<times> bool" where
  "FindVector t node = (case t node of Some index \<Rightarrow> (index, True) | None \<Rightarrow> (0, False))"

definition AddVector :: "vectorTree \<Rightarrow> Point3D \<Rightarrow> uint32 \<Rightarrow> vectorTree" where
  "AddVector t node index = t(node \<mapsto> index)"

record MeshBuilder =
  CalculateConnectivity :: bool
  Mesh :: Mesh
  vectorTree :: vectorTree

definition NewMeshBuilder :: "Mesh \<Rightarrow> MeshBuilder" where
  "NewMeshBuilder m = \<lparr>CalculateConnectivity = True, Mesh = m, vectorTree = Map.empty\<rparr>"

text \<open>
  \<^verbatim>\<open>AddVertex\<close> returns the index and the builder after the call.
  \<^verbatim>\<open>uint32(len(mb.Mesh.Vertices)) - 1\<close> is computed in 32 bits.
\<close>

definition AddVertex :: "MeshBuilder \<Rightarrow> Point3D \<Rightarrow> uint32 \<times> MeshBuilder" where
  "AddVertex mb node =
     (if CalculateConnectivity mb \<and> snd (FindVector (vectorTree mb) node)
      then (fst (FindVector (vectorTree mb) node), mb)
      else
        let mb1 = mb\<lparr>Mesh := (MeshBuilder.Mesh mb)\<lparr>Vertices := Vertices (MeshBuilder.Mesh mb) @ [node]\<rparr>\<rparr>;
            index = word_of_nat (length (Vertices (MeshBuilder.Mesh mb1))) - 1;
            mb2 = (if CalculateConnectivity mb1
                   then mb1\<lparr>vectorTree := AddVector (vectorTree mb1) node index\<rparr> else mb1)
        in (index, mb2))"

text \<open>Two calls in a row with the same point: both indices and the builder after them.\<close>

definition AddVertex_twice :: "MeshBuilder \<Rightarrow> Point3D \<Rightarrow> uint32 \<times> uint32 \<times> MeshBuilder" where
  "AddVertex_twice mb node =
     (let (i1, mb1) = AddVertex mb node;
          (i2, mb2) = AddVertex mb1 node
      in (i1, i2, mb2))"

section \<open>Results about \<^verbatim>\<open>UnusedID\<close> and \<^verbatim>\<open>Register\<close>\<close>

text \<open>
  C1. \<^verbatim>\<open>UnusedID\<close> is specified to return the first index of the sorted id sequence whose
  value differs from the index (or one past the maximum). On the three quoted inputs
  \<open>{1,2,4}\<close>, \<open>{1,2,3}\<close> and the empty collection the code returns 3, 4 and 1 as specified;
  on ids \<open>{1,3,4}\<close> the code returns 3, the last such index, where the specified result
  is 2.
\<close>

theorem UnusedID_last_gap_not_first:
  "UnusedID (assets_with_ids [1, 2, 4]) = 3 \<and>
   UnusedID (assets_with_ids [1, 2, 3]) = 4 \<and>
   UnusedID (assets_with_ids []) = 1 \<and>
   UnusedID (assets_with_ids [1, 3, 4]) = 3 \<and>
   UnusedID_spec (assets_with_ids [1, 3, 4]) = 2"
  by (simp add: UnusedID_def UnusedID_spec_def assets_with_ids_def used_ids_def)

text \<open>
  C2. The id returned by \<^verbatim>\<open>UnusedID\<close> is specified not to be in use. For assets with ids
  \<open>{1,3,4}\<close> the returned id 3 is in use, and the object the STL importer synthesizes
  with it has the id of an existing asset.
\<close>

theorem UnusedID_collides:
  "UnusedID (assets_with_ids [1, 3, 4]) \<in> set (ids_in_use (assets_with_ids [1, 3, 4])) \<and>
   map Object.ID (Objects (Model.Resources (snd (DecodeContext_finish None mesh
      \<lparr>Model.Path = [], Resources = assets_with_ids [1, 3, 4], Build = \<lparr>Items = []\<rparr>,
       Attachments = [], Childs = Map.empty\<rparr>)))) = [3]"
  by (simp add: UnusedID_def assets_with_ids_def used_ids_def ids_in_use_def
      DecodeContext_finish_def)

text \<open>
  C3. \<^verbatim>\<open>Register\<close> is documented to panic when called twice with the same namespace or
  with a nil spec. The code never panics: a second registration under the same namespace
  replaces the first, and a nil spec is stored.
\<close>

theorem Register_never_panics:
  "Register ns (Some s2) (specs(ns \<mapsto> Some s1)) = Inr (specs(ns \<mapsto> Some s2)) \<and>
   Register ns None specs = Inr (specs(ns \<mapsto> None)) \<and>
   (\<forall>sp. \<exists>specs'. Register ns sp specs = Inr specs' \<and> loadExtension specs' ns = (sp, True))"
  by (simp add: Register_def loadExtension_def)

section \<open>Lemmas about the validation loops\<close>

lemma multis_loop_app: "multis_loop n ls j ms es = es @ multis_loop n ls j ms []"
proof (induction ms arbitrary: j es)
  case Nil show ?case by simp
next
  case (Cons mu ms)
  show ?case
    using Cons.IH[of "Suc j" "Append es (WrapIndex ErrIndexOutOfBounds mu j)"]
          Cons.IH[of "Suc j" "es"]
          Cons.IH[of "Suc j" "Append [] (WrapIndex ErrIndexOutOfBounds mu j)"]
    by (simp add: Append_def)
qed

lemma pindices_loop_iff:
  "pindices_loop n ls k ps = (\<exists>i<length ps. k + i < n \<and> ls ! (k + i) < uint (ps ! i))"
proof (induction ps arbitrary: k)
  case Nil show ?case by simp
next
  case (Cons p ps)
  show ?case by (auto simp: Cons.IH Ex_less_Suc2)
qed

lemma multis_loop_count_wrap:
  "count_list (multis_loop n ls j ms []) (WrapIndex e mu i) =
     (if j \<le> i \<and> i < j + length ms \<and> ms ! (i - j) = mu \<and> e = ErrIndexOutOfBounds \<and>
         pindices_loop n ls 0 (Multi.PIndices mu) then 1 else 0)"
proof (induction ms arbitrary: j)
  case Nil show ?case by simp
next
  case (Cons a ms)
  have step: "multis_loop n ls j (a # ms) [] =
      (if pindices_loop n ls 0 (Multi.PIndices a) then [WrapIndex ErrIndexOutOfBounds a j] else [])
        @ multis_loop n ls (Suc j) ms []"
    using multis_loop_app[of n ls "Suc j" ms "[WrapIndex ErrIndexOutOfBounds a j]"]
    by (simp add: Append_def)
  have tl: "count_list (multis_loop n ls (Suc j) ms []) (WrapIndex e mu i) =
     (if Suc j \<le> i \<and> i < Suc j + length ms \<and> ms ! (i - Suc j) = mu \<and> e = ErrIndexOutOfBounds \<and>
         pindices_loop n ls 0 (Multi.PIndices mu) then 1 else 0)"
    by (rule Cons.IH)
  show ?case
  proof (cases "i = j")
    case True
    then show ?thesis unfolding step count_list_append tl by auto
  next
    case False
    then show ?thesis unfolding step count_list_append tl by (auto simp: nth_Cons')
  qed
qed

lemma multis_loop_count_other:
  assumes "\<forall>e' mu i. e \<noteq> WrapIndex e' mu i"
  shows "count_list (multis_loop n ls j ms es) e = count_list es e"
proof (induction ms arbitrary: j es)
  case Nil show ?case by simp
next
  case (Cons a ms)
  have "WrapIndex ErrIndexOutOfBounds a j \<noteq> e" using assms by metis
  then show ?case by (simp add: Cons.IH Append_def)
qed

lemma pids_step_lengths:
  assumes "lengths st ! j = 0"
  shows "lengths (pids_step m path j pid st) = (lengths st)[j := refLen m path pid]"
proof -
  have keep: "(lengths st)[j := 0] = lengths st"
    using assms list_update_id[of "lengths st" j] by simp
  have keep0: "j = 0 \<Longrightarrow> (lengths st)[0 := 0] = lengths st"
    using keep by simp
  show ?thesis
    by (auto simp: pids_step_def refLen_def Let_def keep keep0 split: option.splits Asset.splits)
qed

lemma pids_loop_lengths:
  "length (lengths st) = j + length pids \<Longrightarrow>
   (\<And>k. j \<le> k \<Longrightarrow> k < j + length pids \<Longrightarrow> lengths st ! k = 0) \<Longrightarrow>
   k < j + length pids \<Longrightarrow>
   lengths (pids_loop m path j pids st) ! k =
     (if k < j then lengths st ! k else refLen m path (pids ! (k - j)))"
proof (induction pids arbitrary: j st)
  case Nil then show ?case by simp
next
  case (Cons pid pids)
  let ?st = "pids_step m path j pid st"
  have l: "lengths ?st = (lengths st)[j := refLen m path pid]"
    using Cons.prems(2)[of j] by (simp add: pids_step_lengths)
  have a: "length (lengths ?st) = Suc j + length pids" using Cons.prems(1) by (simp add: l)
  have b: "\<And>k. Suc j \<le> k \<Longrightarrow> k < Suc j + length pids \<Longrightarrow> lengths ?st ! k = 0"
    using Cons.prems(2) by (simp add: l)
  have c: "k < Suc j + length pids" using Cons.prems(3) by simp
  show ?case
    using Cons.IH[OF a b c] Cons.prems(1,3)
    by (auto simp: l nth_list_update Suc_diff_le nth_Cons' less_Suc_eq)
qed

lemma pids_step_count_MR:
  "count_list (errs (pids_step m path j pid st)) ErrMissingResource =
     count_list (errs st) ErrMissingResource +
     (if \<not> resourceUndefined st \<and> FindAsset m path pid = None then 1 else 0)"
  "resourceUndefined (pids_step m path j pid st) = (resourceUndefined st \<or> FindAsset m path pid = None)"
  by (auto simp: pids_step_def Append_def Let_def split: option.splits Asset.splits)

lemma pids_loop_count_MR:
  "count_list (errs (pids_loop m path j pids st)) ErrMissingResource =
     count_list (errs st) ErrMissingResource +
     (if \<not> resourceUndefined st \<and> (\<exists>pid\<in>set pids. FindAsset m path pid = None) then 1 else 0)"
  by (induction pids arbitrary: j st) (auto simp: pids_step_count_MR)

lemma pids_step_count_MRM:
  "count_list (errs (pids_step m path j pid st)) ErrMultiRefMulti =
     count_list (errs st) ErrMultiRefMulti + (if refsMulti m path pid then 1 else 0)"
  by (auto simp: pids_step_def Append_def Let_def refsMulti_def split: option.splits Asset.splits)

lemma pids_loop_count_MRM:
  "count_list (errs (pids_loop m path j pids st)) ErrMultiRefMulti =
     count_list (errs st) ErrMultiRefMulti + length (filter (refsMulti m path) pids)"
  by (induction pids arbitrary: j st) (auto simp: pids_step_count_MRM)

lemma pids_step_count_MM:
  "count_list (errs (pids_step m path j pid st)) ErrMaterialMulti =
     count_list (errs st) ErrMaterialMulti + (if j \<noteq> 0 \<and> refsMaterial m path pid then 1 else 0)"
  by (auto simp: pids_step_def Append_def Let_def refsMaterial_def split: option.splits Asset.splits)

lemma pids_loop_count_MM:
  "count_list (errs (pids_loop m path j pids st)) ErrMaterialMulti =
     count_list (errs st) ErrMaterialMulti +
     length (filter (refsMaterial m path) (if j = 0 then tl pids else pids))"
  by (induction pids arbitrary: j st) (auto simp: pids_step_count_MM)

lemma pids_step_count_MC:
  "count_list (errs (pids_step m path j pid st)) ErrMultiColors =
     count_list (errs st) ErrMultiColors +
     (if refsColorGroup m path pid \<and> colorCount st = 1 then 1 else 0)"
  "colorCount (pids_step m path j pid st) =
     colorCount st + (if refsColorGroup m path pid then 1 else 0)"
  by (auto simp: pids_step_def Append_def Let_def refsColorGroup_def split: option.splits Asset.splits)

lemma pids_loop_count_MC:
  "count_list (errs (pids_loop m path j pids st)) ErrMultiColors =
     count_list (errs st) ErrMultiColors +
     (if colorCount st \<le> 1 \<and> 2 - colorCount st \<le> int (length (filter (refsColorGroup m path) pids))
      then 1 else 0)"
  by (induction pids arbitrary: j st) (auto simp: pids_step_count_MC)

lemma pids_step_count_other:
  "e \<notin> {ErrMaterialMulti, ErrMultiRefMulti, ErrMultiColors, ErrMissingResource} \<Longrightarrow>
   count_list (errs (pids_step m path j pid st)) e = count_list (errs st) e"
  by (auto simp: pids_step_def Append_def Let_def split: option.splits Asset.splits)

lemma pids_loop_count_other:
  "e \<notin> {ErrMaterialMulti, ErrMultiRefMulti, ErrMultiColors, ErrMissingResource} \<Longrightarrow>
   count_list (errs (pids_loop m path j pids st)) e = count_list (errs st) e"
  by (induction pids arbitrary: j st) (auto simp: pids_step_count_other)

lemma pids_loop_lengths0:
  assumes "k < length pids"
  shows "lengths (pids_loop m path 0 pids
            \<lparr>errs = es, colorCount = 0, resourceUndefined = False,
             lengths = replicate (length pids) 0\<rparr>) ! k = refLen m path (pids ! k)"
  using pids_loop_lengths[of "\<lparr>errs = es, colorCount = 0, resourceUndefined = False,
             lengths = replicate (length pids) 0\<rparr>" 0 pids k m path] assms
  by simp

lemma pindices_loop_lengths0:
  "pindices_loop (length pids)
     (lengths (pids_loop m path 0 pids
            \<lparr>errs = es, colorCount = 0, resourceUndefined = False,
             lengths = replicate (length pids) 0\<rparr>)) 0 ps =
   (\<exists>k<length ps. k < length pids \<and> refLen m path (pids ! k) < uint (ps ! k))"
  unfolding pindices_loop_iff using pids_loop_lengths0 by auto

lemma validateMultiProps_split:
  "validateMultiProps m path r =
     errs (pids_loop m path 0 (PIDs r)
        \<lparr>errs = (if MultiProperties.ID r = 0 then [ErrMissingID] else []) @
                (if PIDs r = [] then [MissingFieldError attrPIDs] else []) @
                (if int (length (BlendMethods r)) > int (length (PIDs r)) - 1 then [ErrMultiBlend] else []) @
                (if Multis r = [] then [ErrEmptyResourceProps] else []),
         colorCount = 0, resourceUndefined = False,
         lengths = replicate (length (PIDs r)) 0\<rparr>) @
     multis_loop (length (PIDs r))
        (lengths (pids_loop m path 0 (PIDs r)
            \<lparr>errs = (if MultiProperties.ID r = 0 then [ErrMissingID] else []) @
                (if PIDs r = [] then [MissingFieldError attrPIDs] else []) @
                (if int (length (BlendMethods r)) > int (length (PIDs r)) - 1 then [ErrMultiBlend] else []) @
                (if Multis r = [] then [ErrEmptyResourceProps] else []),
             colorCount = 0, resourceUndefined = False,
             lengths = replicate (length (PIDs r)) 0\<rparr>)) 0 (Multis r) []"
  unfolding validateMultiProps_def Let_def Append_def
  by (subst multis_loop_app) simp

lemma validateMultiProps_count_wrap:
  assumes "j < length (Multis r)"
  shows "count_list (validateMultiProps m path r) (WrapIndex ErrIndexOutOfBounds (Multis r ! j) j) =
     (if slot_exceeds m path (PIDs r) (Multis r ! j) then 1 else 0)"
  unfolding validateMultiProps_split count_list_append multis_loop_count_wrap
    pindices_loop_lengths0 slot_exceeds_def
  using assms by (simp add: pids_loop_count_other)

lemma validateMultiProps_count_plain:
  assumes "\<forall>e' mu i. e \<noteq> WrapIndex e' mu i"
      and "e \<notin> {ErrMaterialMulti, ErrMultiRefMulti, ErrMultiColors, ErrMissingResource}"
  shows "count_list (validateMultiProps m path r) e =
     (if MultiProperties.ID r = 0 \<and> e = ErrMissingID then 1 else 0) +
     (if PIDs r = [] \<and> e = MissingFieldError attrPIDs then 1 else 0) +
     (if int (length (BlendMethods r)) > int (length (PIDs r)) - 1 \<and> e = ErrMultiBlend then 1 else 0) +
     (if Multis r = [] \<and> e = ErrEmptyResourceProps then 1 else 0)"
  unfolding validateMultiProps_def Let_def
  using assms by (auto simp: multis_loop_count_other pids_loop_count_other Append_def)

lemma validateMultiProps_count_loop:
  "count_list (validateMultiProps m path r) ErrMissingResource =
     (if \<exists>pid\<in>set (PIDs r). FindAsset m path pid = None then 1 else 0)"
  "count_list (validateMultiProps m path r) ErrMultiRefMulti =
     length (filter (refsMulti m path) (PIDs r))"
  "count_list (validateMultiProps m path r) ErrMaterialMulti =
     length (filter (refsMaterial m path) (tl (PIDs r)))"
  "count_list (validateMultiProps m path r) ErrMultiColors =
     (if 2 \<le> length (filter (refsColorGroup m path) (PIDs r)) then 1 else 0)"
  unfolding validateMultiProps_def Let_def
  by (auto simp: multis_loop_count_other pids_loop_count_MR pids_loop_count_MRM
       pids_loop_count_MM pids_loop_count_MC Append_def)

lemma indices_loop_iff: "indices_loop n xs = (\<exists>x\<in>set xs. int n < uint x)"
  by (induction xs) auto

lemma validateCompositeMat_count:
  "count_list (validateCompositeMat m path c) ErrMissingID =
     (if CompositeMaterials.ID c = 0 then 1 else 0)"
  "count_list (validateCompositeMat m path c) (MissingFieldError attrMatID) =
     (if MaterialID c = 0 then 1 else 0)"
  "count_list (validateCompositeMat m path c) ErrMissingResource =
     (if MaterialID c \<noteq> 0 \<and> FindAsset m path (MaterialID c) = None then 1 else 0)"
  "count_list (validateCompositeMat m path c) ErrCompositeBase =
     (if MaterialID c \<noteq> 0 \<and> refsNonBase m path (MaterialID c) then 1 else 0)"
  "count_list (validateCompositeMat m path c) ErrIndexOutOfBounds =
     (if MaterialID c \<noteq> 0 \<and> index_exceeds m path c then 1 else 0)"
  "count_list (validateCompositeMat m path c) (MissingFieldError attrMatIndices) =
     (if CompositeMaterials.Indices c = [] then 1 else 0)"
  "count_list (validateCompositeMat m path c) ErrEmptyResourceProps =
     (if Composites c = [] then 1 else 0)"
  by (auto simp: validateCompositeMat_def Let_def Append_def indices_loop_iff refsNonBase_def
       index_exceeds_def attrMatID_def attrMatIndices_def
       split: option.splits Asset.splits)

section \<open>Results about the attachment bags\<close>

text \<open>
  C10. For an empty or nil bag, \<^verbatim>\<open>AnyAttr.Get\<close> and \<^verbatim>\<open>Extension.Get\<close> return false for every
  target (nil, not a pointer, a nil pointer, a pointer to any type) without panicking
  and without storing anything; so whenever either panics, the bag is not empty.
\<close>

theorem Get_empty_bag_returns_false:
  "(len e = 0 \<longrightarrow>
      AnyAttr_Get rf e target = Inr (False, None) \<and>
      Extension_Get rf e target = Inr (False, None)) \<and>
   (\<forall>p. AnyAttr_Get rf e target = Inl p \<or> Extension_Get rf e target = Inl p \<longrightarrow> len e \<noteq> 0)"
  by (auto simp: AnyAttr_Get_def Extension_Get_def)

theorem Get_empty_bag_returns_false_witness:
  "AnyAttr_Get
     \<lparr>typeOf = (\<lambda>v::nat. v), isInterface = (\<lambda>t. False), implementsMarshalerAttr = (\<lambda>t. False),
      implementsMarshaler = (\<lambda>t. False), assignableTo = (\<lambda>a b. a = b)\<rparr>
     NilSlice TargetNil = Inr (False, None) \<and>
   Extension_Get
     \<lparr>typeOf = (\<lambda>v::nat. v), isInterface = (\<lambda>t. False), implementsMarshalerAttr = (\<lambda>t. False),
      implementsMarshaler = (\<lambda>t. False), assignableTo = (\<lambda>a b. a = b)\<rparr>
     (Slice []) (TargetNonPointer 5) = Inr (False, None) \<and>
   AnyAttr_Get
     \<lparr>typeOf = (\<lambda>v::nat. v), isInterface = (\<lambda>t. False), implementsMarshalerAttr = (\<lambda>t. False),
      implementsMarshaler = (\<lambda>t. False), assignableTo = (\<lambda>a b. a = b)\<rparr>
     (Slice [Some 7]) TargetNil = Inl (Panic ''go3mf: target cannot be nil'')"
  using Get_empty_bag_returns_false
          [of NilSlice
              "\<lparr>typeOf = (\<lambda>v::nat. v), isInterface = (\<lambda>t. False),
                implementsMarshalerAttr = (\<lambda>t. False), implementsMarshaler = (\<lambda>t. False),
                assignableTo = (\<lambda>a b. a = b)\<rparr>" TargetNil]
        Get_empty_bag_returns_false
          [of "Slice []"
              "\<lparr>typeOf = (\<lambda>v::nat. v), isInterface = (\<lambda>t. False),
                implementsMarshalerAttr = (\<lambda>t. False), implementsMarshaler = (\<lambda>t. False),
                assignableTo = (\<lambda>a b. a = b)\<rparr>" "TargetNonPointer 5"]
  by (simp add: len_def AnyAttr_Get_def)

text \<open>
  C4. The round trip needs the encoder to re-emit every \<^verbatim>\<open>Marshaler\<close> of an entity's
  extension list. \<^verbatim>\<open>Extension.encode\<close> returns at the first entry whose \<^verbatim>\<open>Marshal3MF\<close>
  succeeds, whatever entries follow it, so the later entries are never emitted.
\<close>

theorem Extension_encode_stops_at_first_success:
  "marshal ext x = (None, x') \<Longrightarrow>
   Extension_encode marshal (Some ext # exts) x = Inr (None, x')"
  by simp

text \<open>
  Two entries that both marshal successfully, each appending its name to the output:
  only the first is written, where the sibling \<^verbatim>\<open>AnyAttr.encode\<close> writes both.
\<close>

theorem Extension_encode_stops_at_first_success_witness:
  "Extension_encode (\<lambda>v x. (None, x @ [v])) [Some ''first'', Some ''second''] [] =
     Inr (None, [''first'']) \<and>
   AnyAttr_encode (\<lambda>v x. (([v], None), x)) [Some ''first'', Some ''second''] () [] =
     Inr ((), [''first'', ''second''])"
  using Extension_encode_stops_at_first_success
          [of "\<lambda>v x. (None, x @ [v])" "''first''" "[]" "[''first'']" "[Some ''second'']"]
  by simp

section \<open>Results about validation\<close>

text \<open>
  C5. For a multi-properties asset with \<open>N\<close> property-IDs, \<^verbatim>\<open>validateMultiProps\<close> yields the
  blend-methods-count diagnostic \<^verbatim>\<open>ErrMultiBlend\<close> exactly when the asset has more than
  \<open>N - 1\<close> blend methods, the difference taken in the integers as the code does (so an
  asset without property-IDs always yields it).
\<close>

theorem blend_count_diagnostic_iff:
  "(ErrMultiBlend \<in> set (validateMultiProps m path r)) =
     (int (length (BlendMethods r)) > int (length (PIDs r)) - 1)"
proof -
  have "count_list (validateMultiProps m path r) ErrMultiBlend =
     (if int (length (BlendMethods r)) > int (length (PIDs r)) - 1 then 1 else 0)"
    by (simp add: validateMultiProps_count_plain)
  then show ?thesis
    using count_list_0_iff[of "validateMultiProps m path r" ErrMultiBlend]
    by (simp split: if_splits)
qed

text \<open>Property-IDs \<open>{1, 6}\<close>: two blend methods yield the diagnostic, one does not.\<close>

theorem blend_count_diagnostic_iff_witness:
  "ErrMultiBlend \<in> set (validateMultiProps test_model []
      \<lparr>MultiProperties.ID = 2, PIDs = [1, 6], BlendMethods = [1, 1],
       Multis = [\<lparr>Multi.PIndices = [1, 0]\<rparr>]\<rparr>) \<and>
   ErrMultiBlend \<notin> set (validateMultiProps test_model []
      \<lparr>MultiProperties.ID = 2, PIDs = [1, 6], BlendMethods = [1],
       Multis = [\<lparr>Multi.PIndices = [1, 0]\<rparr>]\<rparr>)"
  using blend_count_diagnostic_iff
          [of test_model "[]" "\<lparr>MultiProperties.ID = 2, PIDs = [1, 6], BlendMethods = [1, 1],
             Multis = [\<lparr>Multi.PIndices = [1, 0]\<rparr>]\<rparr>"]
        blend_count_diagnostic_iff
          [of test_model "[]" "\<lparr>MultiProperties.ID = 2, PIDs = [1, 6], BlendMethods = [1],
             Multis = [\<lparr>Multi.PIndices = [1, 0]\<rparr>]\<rparr>"]
  by simp

text \<open>
  C6. A combination entry whose slot indices are all within the lengths of the lists its
  property-IDs refer to is specified to yield no out-of-bounds diagnostic. The switch of
  \<^verbatim>\<open>validateMultiProps\<close> records a length for base materials, composite materials and
  color groups only, and leaves 0 for a texture group. For the multi-properties asset of
  the decoding test, whose property-IDs \<open>{5, 2}\<close> refer to lists of lengths 3 and 4, the
  entry \<open>{2, 3}\<close> at index 2 has both indices inside those lists, and the code yields the
  out-of-bounds diagnostic wrapped with index 2.
\<close>

theorem texture_group_index_within_yet_flagged:
  "map (referencedListLen texture_model []) (PIDs texture_multi) = [Some 3, Some 4] \<and>
   Multi.PIndices (Multis texture_multi ! 2) = [2, 3] \<and>
   validateMultiProps texture_model [] texture_multi =
     [WrapIndex ErrIndexOutOfBounds \<lparr>Multi.PIndices = [2, 3]\<rparr> 2]"
  by (simp add: validateMultiProps_def pids_step_def Append_def referencedListLen_def
      FindAsset_def FindResources_def texture_model_def texture_multi_def)

text \<open>
  C7, as the code has it. A composite-materials asset with two indices out of bounds
  yields one out-of-bounds diagnostic, and a multi-properties asset with two dangling
  property-IDs yields one missing-resource diagnostic: the loops stop at, or report only,
  the first occurrence.
\<close>

theorem validation_reports_every_problem_counterexample:
  "validateCompositeMat test_model []
      \<lparr>CompositeMaterials.ID = 4, MaterialID = 1, Indices = [100, 100],
       Composites = [\<lparr>Values = [0x3F800000, 0x40000000]\<rparr>]\<rparr> = [ErrIndexOutOfBounds] \<and>
   validateMultiProps test_model []
      \<lparr>MultiProperties.ID = 5, PIDs = [100, 101], BlendMethods = [],
       Multis = [\<lparr>Multi.PIndices = []\<rparr>]\<rparr> = [ErrMissingResource]"
  by (simp add: validateCompositeMat_def validateMultiProps_def pids_step_def Append_def
      FindAsset_def FindResources_def test_model_def DefaultModelPath_def)

text \<open>
  C7, amended. No check of \<^verbatim>\<open>validateMultiProps\<close> or \<^verbatim>\<open>validateCompositeMat\<close> is skipped
  because an earlier one failed: each diagnostic is in the list exactly as often as stated
  below, whatever the other checks found. The identifier, required-field, blend-count and
  empty-resource diagnostics appear once when their condition holds; a wrong-kind
  reference is reported for every offending property-ID; a missing resource is reported
  once per multi-properties asset however many property-IDs dangle, the second color
  group once, an out-of-bounds index once per combination entry, and an out-of-bounds
  index once per composite-materials asset.
\<close>

theorem validation_accumulates_once_per_loop:
  "count_list (validateMultiProps m path r) ErrMissingID =
     (if MultiProperties.ID r = 0 then 1 else 0) \<and>
   count_list (validateMultiProps m path r) (MissingFieldError attrPIDs) =
     (if PIDs r = [] then 1 else 0) \<and>
   count_list (validateMultiProps m path r) ErrMultiBlend =
     (if int (length (BlendMethods r)) > int (length (PIDs r)) - 1 then 1 else 0) \<and>
   count_list (validateMultiProps m path r) ErrEmptyResourceProps =
     (if Multis r = [] then 1 else 0) \<and>
   count_list (validateMultiProps m path r) ErrMissingResource =
     (if \<exists>pid\<in>set (PIDs r). FindAsset m path pid = None then 1 else 0) \<and>
   count_list (validateMultiProps m path r) ErrMultiRefMulti =
     length (filter (refsMulti m path) (PIDs r)) \<and>
   count_list (validateMultiProps m path r) ErrMaterialMulti =
     length (filter (refsMaterial m path) (tl (PIDs r))) \<and>
   count_list (validateMultiProps m path r) ErrMultiColors =
     (if 2 \<le> length (filter (refsColorGroup m path) (PIDs r)) then 1 else 0) \<and>
   (\<forall>j<length (Multis r).
      count_list (validateMultiProps m path r) (WrapIndex ErrIndexOutOfBounds (Multis r ! j) j) =
        (if slot_exceeds m path (PIDs r) (Multis r ! j) then 1 else 0)) \<and>
   count_list (validateCompositeMat m path c) ErrMissingID =
     (if CompositeMaterials.ID c = 0 then 1 else 0) \<and>
   count_list (validateCompositeMat m path c) (MissingFieldError attrMatID) =
     (if MaterialID c = 0 then 1 else 0) \<and>
   count_list (validateCompositeMat m path c) ErrMissingResource =
     (if MaterialID c \<noteq> 0 \<and> FindAsset m path (MaterialID c) = None then 1 else 0) \<and>
   count_list (validateCompositeMat m path c) ErrCompositeBase =
     (if MaterialID c \<noteq> 0 \<and> refsNonBase m path (MaterialID c) then 1 else 0) \<and>
   count_list (validateCompositeMat m path c) ErrIndexOutOfBounds =
     (if MaterialID c \<noteq> 0 \<and> index_exceeds m path c then 1 else 0) \<and>
   count_list (validateCompositeMat m path c) (MissingFieldError attrMatIndices) =
     (if CompositeMaterials.Indices c = [] then 1 else 0) \<and>
   count_list (validateCompositeMat m path c) ErrEmptyResourceProps =
     (if Composites c = [] then 1 else 0)"
proof -
  have plain:
    "count_list (validateMultiProps m path r) ErrMissingID =
       (if MultiProperties.ID r = 0 then 1 else 0)"
    "count_list (validateMultiProps m path r) (MissingFieldError attrPIDs) =
       (if PIDs r = [] then 1 else 0)"
    "count_list (validateMultiProps m path r) ErrMultiBlend =
       (if int (length (BlendMethods r)) > int (length (PIDs r)) - 1 then 1 else 0)"
    "count_list (validateMultiProps m path r) ErrEmptyResourceProps =
       (if Multis r = [] then 1 else 0)"
    by (simp_all add: validateMultiProps_count_plain)
  have wrap: "\<forall>j<length (Multis r).
      count_list (validateMultiProps m path r) (WrapIndex ErrIndexOutOfBounds (Multis r ! j) j) =
        (if slot_exceeds m path (PIDs r) (Multis r ! j) then 1 else 0)"
    using validateMultiProps_count_wrap by blast
  show ?thesis
    using plain wrap validateMultiProps_count_loop[of m path r]
      validateCompositeMat_count[of m path c]
    by blast
qed

text \<open>
  The assets of the validation test: entry \<open>{1, 3}\<close> against lists of length 2, two dangling
  property-IDs, and composite indices \<open>{100, 100}\<close> against two base materials.
\<close>

theorem validation_accumulates_once_per_loop_witness:
  "count_list (validateMultiProps test_model []
      \<lparr>MultiProperties.ID = 0, PIDs = [100, 101], BlendMethods = [1, 1],
       Multis = [\<lparr>Multi.PIndices = [1, 3]\<rparr>]\<rparr>)
      (WrapIndex ErrIndexOutOfBounds \<lparr>Multi.PIndices = [1, 3]\<rparr> 0) = 1 \<and>
   count_list (validateMultiProps test_model []
      \<lparr>MultiProperties.ID = 0, PIDs = [100, 101], BlendMethods = [1, 1],
       Multis = [\<lparr>Multi.PIndices = [1, 3]\<rparr>]\<rparr>) ErrMissingResource = 1 \<and>
   count_list (validateMultiProps test_model []
      \<lparr>MultiProperties.ID = 0, PIDs = [100, 101], BlendMethods = [1, 1],
       Multis = [\<lparr>Multi.PIndices = [1, 3]\<rparr>]\<rparr>) ErrMultiBlend = 1 \<and>
   count_list (validateMultiProps test_model []
      \<lparr>MultiProperties.ID = 0, PIDs = [100, 101], BlendMethods = [1, 1],
       Multis = [\<lparr>Multi.PIndices = [1, 3]\<rparr>]\<rparr>) ErrMissingID = 1 \<and>
   count_list (validateCompositeMat test_model []
      \<lparr>CompositeMaterials.ID = 4, MaterialID = 1, Indices = [100, 100],
       Composites = []\<rparr>) ErrIndexOutOfBounds = 1 \<and>
   count_list (validateCompositeMat test_model []
      \<lparr>CompositeMaterials.ID = 4, MaterialID = 1, Indices = [100, 100],
       Composites = []\<rparr>) ErrEmptyResourceProps = 1"
proof -
  have none: "FindAsset test_model [] 100 = None" "FindAsset test_model [] 101 = None"
    by (simp_all add: FindAsset_def FindResources_def test_model_def)
  have len: "refLen test_model [] 100 = 0" "refLen test_model [] 101 = 0"
    by (simp_all add: refLen_def none)
  have ex: "index_exceeds test_model []
      \<lparr>CompositeMaterials.ID = 4, MaterialID = 1, Indices = [100, 100], Composites = []\<rparr>"
    by (simp add: index_exceeds_def FindAsset_def FindResources_def test_model_def)
  show ?thesis
    using validation_accumulates_once_per_loop
            [of test_model "[]"
               "\<lparr>MultiProperties.ID = 0, PIDs = [100, 101], BlendMethods = [1, 1],
                 Multis = [\<lparr>Multi.PIndices = [1, 3]\<rparr>]\<rparr>"
               "\<lparr>CompositeMaterials.ID = 4, MaterialID = 1, Indices = [100, 100],
                 Composites = []\<rparr>"]
    by (simp add: none len ex slot_exceeds_def Ex_less_Suc)
qed

section \<open>Results about the streaming decoder\<close>

lemma Skip_loop_nesting:
  "nesting d sub = Some d' \<Longrightarrow> Skip_loop fin d (sub @ rest) = Skip_loop fin d' rest"
  by (induction d sub rule: nesting.induct) (auto split: if_splits)

lemma Skip_loop_subtree:
  assumes "nesting 0 sub = Some 0"
  shows "Skip_loop fin 0 (sub @ EndElement ename # rest) = (None, rest)"
  using Skip_loop_nesting[OF assms, of fin "EndElement ename # rest"] by simp



section \<open>Results about the mesh builder\<close>




end
